theory Spec2Isabelle
  imports Main
begin

section \<open>Data model of the connection store (src/stores/connection-store.ts)\<close>

text \<open>
  A TypeScript \<^verbatim>\<open>number\<close> is modelled by \<open>js_number\<close>: the numbers of this code are
  ports, counts, widths and durations, or the result of \<^verbatim>\<open>parseInt\<close>, which is an
  integer or NaN. No arithmetic is done on them except the \<^verbatim>\<open>tabCount + 1\<close> of
  \<^verbatim>\<open>addQueryTab\<close>, which is a list length and is modelled in \<open>nat\<close>.
  A value of type \<^verbatim>\<open>unknown\<close> (a cell of a result row) is never inspected by the
  store; its type is left opaque.
\<close>

datatype js_number = Num int | NaN

typedecl js_value

datatype DatabaseType = postgres | mysql

datatype Theme = light | dark | system

datatype TableKind = table | view

text \<open>
  Field names carry a prefix (\<open>c_\<close> for \<^verbatim>\<open>Connection\<close>, \<open>t_\<close> for \<^verbatim>\<open>QueryTab\<close>, ...)
  because several interfaces of the source share the names \<^verbatim>\<open>id\<close>, \<^verbatim>\<open>name\<close> and \<^verbatim>\<open>type\<close>.
  An optional field (\<^verbatim>\<open>lastConnected?\<close>) is an \<open>option\<close>.
\<close>

record Connection =
  c_id :: string
  c_name :: string
  c_type :: DatabaseType
  c_host :: string
  c_port :: js_number
  c_database :: string
  c_username :: string
  c_isConnected :: bool
  c_lastConnected :: "string option"

record ColumnInfo =
  col_name :: string
  col_dataType :: string
  col_nullable :: bool

record QueryResult =
  r_columns :: "ColumnInfo list"
  r_rows :: "(string \<times> js_value) list list"
  r_rowCount :: js_number
  r_executionTimeMs :: js_number

record QueryTab =
  t_id :: string
  t_connectionId :: string
  t_title :: string
  t_sql :: string
  t_results :: "QueryResult option"
  t_isRunning :: bool

record TableInfo =
  ti_name :: string
  ti_schema :: string
  ti_type :: TableKind
  ti_rowCount :: "js_number option"

record ConnectionStore =
  connections :: "Connection list"
  activeConnectionId :: "string option"
  queryTabs :: "QueryTab list"
  activeTabId :: "string option"
  tables :: "TableInfo list"
  sidebarWidth :: js_number
  theme :: Theme

text \<open>
  \<^verbatim>\<open>Partial<Connection>\<close> and \<^verbatim>\<open>Partial<QueryTab>\<close>: every key may be absent (\<open>None\<close>).
  A present key carries a value of the field's type; for the optional fields
  \<^verbatim>\<open>lastConnected\<close> and \<^verbatim>\<open>results\<close> the present value may itself be \<^verbatim>\<open>undefined\<close>
  (\<open>Some None\<close>).
\<close>

record ConnectionUpdates =
  uc_id :: "string option"
  uc_name :: "string option"
  uc_type :: "DatabaseType option"
  uc_host :: "string option"
  uc_port :: "js_number option"
  uc_database :: "string option"
  uc_username :: "string option"
  uc_isConnected :: "bool option"
  uc_lastConnected :: "string option option"

record QueryTabUpdates =
  ut_id :: "string option"
  ut_connectionId :: "string option"
  ut_title :: "string option"
  ut_sql :: "string option"
  ut_results :: "QueryResult option option"
  ut_isRunning :: "bool option"

definition no_connection_updates :: ConnectionUpdates where
  "no_connection_updates =
     \<lparr>uc_id = None, uc_name = None, uc_type = None, uc_host = None, uc_port = None,
      uc_database = None, uc_username = None, uc_isConnected = None,
      uc_lastConnected = None\<rparr>"

definition no_tab_updates :: QueryTabUpdates where
  "no_tab_updates =
     \<lparr>ut_id = None, ut_connectionId = None, ut_title = None, ut_sql = None,
      ut_results = None, ut_isRunning = None\<rparr>"

text \<open>The object spread \<^verbatim>\<open>{ ...c, ...updates }\<close>: a key of \<^verbatim>\<open>updates\<close> wins when present.\<close>

definition spread :: "'a \<Rightarrow> 'a option \<Rightarrow> 'a" where
  "spread old upd = (case upd of None \<Rightarrow> old | Some v \<Rightarrow> v)"

definition spread_connection :: "Connection \<Rightarrow> ConnectionUpdates \<Rightarrow> Connection" where
  "spread_connection c u =
     \<lparr>c_id = spread (c_id c) (uc_id u),
      c_name = spread (c_name c) (uc_name u),
      c_type = spread (c_type c) (uc_type u),
      c_host = spread (c_host c) (uc_host u),
      c_port = spread (c_port c) (uc_port u),
      c_database = spread (c_database c) (uc_database u),
      c_username = spread (c_username c) (uc_username u),
      c_isConnected = spread (c_isConnected c) (uc_isConnected u),
      c_lastConnected = spread (c_lastConnected c) (uc_lastConnected u)\<rparr>"

definition spread_tab :: "QueryTab \<Rightarrow> QueryTabUpdates \<Rightarrow> QueryTab" where
  "spread_tab t u =
     \<lparr>t_id = spread (t_id t) (ut_id u),
      t_connectionId = spread (t_connectionId t) (ut_connectionId u),
      t_title = spread (t_title t) (ut_title u),
      t_sql = spread (t_sql t) (ut_sql u),
      t_results = spread (t_results t) (ut_results u),
      t_isRunning = spread (t_isRunning t) (ut_isRunning u)\<rparr>"

section \<open>The store's actions\<close>

text \<open>
  Each action is a function from the store state to the new state (zustand's
  \<^verbatim>\<open>set\<close> merges the returned keys into the state and leaves the other keys as they
  are). The two values the source takes from its environment are parameters:
  the UUID of \<^verbatim>\<open>generateId()\<close> and the time stamp of \<^verbatim>\<open>new Date().toISOString()\<close>.
\<close>

definition initial_store :: ConnectionStore where
  "initial_store =
     \<lparr>connections = [], activeConnectionId = None, queryTabs = [], activeTabId = None,
      tables = [], sidebarWidth = Num 260, theme = dark\<rparr>"

definition addConnection :: "Connection \<Rightarrow> ConnectionStore \<Rightarrow> ConnectionStore" where
  "addConnection connection state = state\<lparr>connections := connections state @ [connection]\<rparr>"

definition updateConnection ::
  "string \<Rightarrow> ConnectionUpdates \<Rightarrow> ConnectionStore \<Rightarrow> ConnectionStore" where
  "updateConnection ident updates state =
     state\<lparr>connections :=
       map (\<lambda>c. if c_id c = ident then spread_connection c updates else c)
         (connections state)\<rparr>"

definition removeConnection :: "string \<Rightarrow> ConnectionStore \<Rightarrow> ConnectionStore" where
  "removeConnection ident state =
     state\<lparr>connections := filter (\<lambda>c. c_id c \<noteq> ident) (connections state),
           activeConnectionId :=
             (if activeConnectionId state = Some ident then None
              else activeConnectionId state),
           queryTabs := filter (\<lambda>t. t_connectionId t \<noteq> ident) (queryTabs state)\<rparr>"

definition setActiveConnection :: "string option \<Rightarrow> ConnectionStore \<Rightarrow> ConnectionStore" where
  "setActiveConnection ident state = state\<lparr>activeConnectionId := ident, tables := []\<rparr>"

definition setConnectionStatus ::
  "string \<Rightarrow> string \<Rightarrow> bool \<Rightarrow> ConnectionStore \<Rightarrow> ConnectionStore" where
  "setConnectionStatus now ident isConnected state =
     state\<lparr>connections :=
       map (\<lambda>c. if c_id c = ident
                then c\<lparr>c_isConnected := isConnected,
                       c_lastConnected :=
                         (if isConnected then Some now else c_lastConnected c)\<rparr>
                else c)
         (connections state)\<rparr>"

text \<open>
  The template literal \<^verbatim>\<open>`Query ${tabCount + 1}`\<close> writes the number in decimal.
\<close>

definition digit_char :: "nat \<Rightarrow> char" where
  "digit_char d = ''0123456789'' ! d"

function string_of_nat :: "nat \<Rightarrow> string" where
  "string_of_nat n =
     (if n < 10 then [digit_char n]
      else string_of_nat (n div 10) @ [digit_char (n mod 10)])"
  by pat_completeness auto
termination
  by (relation "measure (\<lambda>n. n)") auto

declare string_of_nat.simps [simp del]

text \<open>Reading a decimal numeral back, to state what \<open>string_of_nat\<close> writes.\<close>

definition nat_of_string :: "string \<Rightarrow> nat" where
  "nat_of_string s = foldl (\<lambda>a ch. 10 * a + (of_char ch - 48)) 0 s"

definition addQueryTab :: "string \<Rightarrow> string \<Rightarrow> ConnectionStore \<Rightarrow> ConnectionStore" where
  "addQueryTab newTabId connectionId state =
     (let tabCount = length (filter (\<lambda>t. t_connectionId t = connectionId) (queryTabs state))
      in state\<lparr>queryTabs := queryTabs state @
                  [\<lparr>t_id = newTabId, t_connectionId = connectionId,
                    t_title = ''Query '' @ string_of_nat (tabCount + 1),
                    t_sql = [], t_results = None, t_isRunning = False\<rparr>],
                activeTabId := Some newTabId\<rparr>)"

definition updateQueryTab ::
  "string \<Rightarrow> QueryTabUpdates \<Rightarrow> ConnectionStore \<Rightarrow> ConnectionStore" where
  "updateQueryTab ident updates state =
     state\<lparr>queryTabs :=
       map (\<lambda>t. if t_id t = ident then spread_tab t updates else t) (queryTabs state)\<rparr>"

text \<open>
  \<^verbatim>\<open>tabs[tabs.length - 1]?.id ?? null\<close>: on the empty list the index \<open>-1\<close> reads
  \<^verbatim>\<open>undefined\<close>, the optional chain keeps it and \<^verbatim>\<open>??\<close> turns it into \<^verbatim>\<open>null\<close>.
\<close>

definition removeQueryTab :: "string \<Rightarrow> ConnectionStore \<Rightarrow> ConnectionStore" where
  "removeQueryTab ident state =
     (let tabs = filter (\<lambda>t. t_id t \<noteq> ident) (queryTabs state);
          wasActive = (activeTabId state = Some ident)
      in state\<lparr>queryTabs := tabs,
                activeTabId :=
                  (if wasActive
                   then (if tabs = [] then None
                         else Some (t_id (tabs ! (length tabs - 1))))
                   else activeTabId state)\<rparr>)"

definition setActiveTab :: "string option \<Rightarrow> ConnectionStore \<Rightarrow> ConnectionStore" where
  "setActiveTab ident state = state\<lparr>activeTabId := ident\<rparr>"

definition setTables :: "TableInfo list \<Rightarrow> ConnectionStore \<Rightarrow> ConnectionStore" where
  "setTables tbls state = state\<lparr>tables := tbls\<rparr>"

definition setSidebarWidth :: "js_number \<Rightarrow> ConnectionStore \<Rightarrow> ConnectionStore" where
  "setSidebarWidth width state = state\<lparr>sidebarWidth := width\<rparr>"

definition setTheme :: "Theme \<Rightarrow> ConnectionStore \<Rightarrow> ConnectionStore" where
  "setTheme th state = state\<lparr>theme := th\<rparr>"

section \<open>The persisted projection\<close>

text \<open>
  The \<^verbatim>\<open>persist\<close> middleware writes \<^verbatim>\<open>partialize(state)\<close> to the local storage entry
  \<^verbatim>\<open>mesagrid-storage\<close>: an object with the three keys below.
\<close>

record PersistedState =
  p_connections :: "Connection list"
  p_sidebarWidth :: js_number
  p_theme :: Theme

definition partialize :: "ConnectionStore \<Rightarrow> PersistedState" where
  "partialize state =
     \<lparr>p_connections = map (\<lambda>c. c\<lparr>c_isConnected := False\<rparr>) (connections state),
      p_sidebarWidth = sidebarWidth state,
      p_theme = theme state\<rparr>"

text \<open>The states the store can be in: the initial state and what the actions make of it.\<close>

inductive reachable :: "ConnectionStore \<Rightarrow> bool" where
  r_initial: "reachable initial_store"
| r_addConnection: "reachable s \<Longrightarrow> reachable (addConnection c s)"
| r_updateConnection: "reachable s \<Longrightarrow> reachable (updateConnection ident u s)"
| r_removeConnection: "reachable s \<Longrightarrow> reachable (removeConnection ident s)"
| r_setActiveConnection: "reachable s \<Longrightarrow> reachable (setActiveConnection a s)"
| r_setConnectionStatus: "reachable s \<Longrightarrow> reachable (setConnectionStatus now ident b s)"
| r_addQueryTab: "reachable s \<Longrightarrow> reachable (addQueryTab newTabId ident s)"
| r_updateQueryTab: "reachable s \<Longrightarrow> reachable (updateQueryTab ident v s)"
| r_removeQueryTab: "reachable s \<Longrightarrow> reachable (removeQueryTab ident s)"
| r_setActiveTab: "reachable s \<Longrightarrow> reachable (setActiveTab a s)"
| r_setTables: "reachable s \<Longrightarrow> reachable (setTables tbls s)"
| r_setSidebarWidth: "reachable s \<Longrightarrow> reachable (setSidebarWidth w s)"
| r_setTheme: "reachable s \<Longrightarrow> reachable (setTheme th s)"

section \<open>The command surface (src/lib/api.ts)\<close>

record CreateConnectionParams =
  cp_name :: string
  cp_type :: DatabaseType
  cp_host :: string
  cp_port :: js_number
  cp_database :: string
  cp_username :: string
  cp_password :: string

record TestConnectionParams =
  tp_type :: DatabaseType
  tp_host :: string
  tp_port :: js_number
  tp_database :: string
  tp_username :: string
  tp_password :: string

record ExecuteQueryParams =
  ep_connectionId :: string
  ep_sql :: string
  ep_limit :: "js_number option"
  ep_offset :: "js_number option"

record GetTableDataParams =
  gp_connectionId :: string
  gp_tableName :: string
  gp_schema :: "string option"
  gp_limit :: "js_number option"
  gp_offset :: "js_number option"

record TableDataResult =
  td_columns :: "ColumnInfo list"
  td_rows :: "(string \<times> js_value) list list"
  td_totalCount :: js_number
  td_hasMore :: bool

record TestConnectionResult =
  tc_success :: bool
  tc_error :: "string option"

text \<open>
  A promise that settles is fulfilled with a value or rejected with a thrown value; of a
  thrown value the handlers only ask whether it is an \<^verbatim>\<open>Error\<close> object, and then
  read its \<^verbatim>\<open>message\<close>.
\<close>

datatype thrown = ErrorObject string | OtherValue

datatype 'a promise = Fulfilled 'a | RejectedWith thrown

text \<open>
  Every function of api.ts hands its argument to Tauri's \<^verbatim>\<open>invoke\<close> under a command
  name. \<^verbatim>\<open>invoke\<close> and the Rust command behind it are not part of these sources: they
  are the parameter \<open>invoke\<close>, of any result type \<open>'r\<close>.
\<close>

definition createConnection ::
  "(string \<Rightarrow> CreateConnectionParams \<Rightarrow> 'r) \<Rightarrow> CreateConnectionParams \<Rightarrow> 'r" where
  "createConnection invoke params = invoke ''create_connection'' params"

definition testConnection ::
  "(string \<Rightarrow> TestConnectionParams \<Rightarrow> 'r) \<Rightarrow> TestConnectionParams \<Rightarrow> 'r" where
  "testConnection invoke params = invoke ''test_connection'' params"

definition deleteConnection :: "(string \<Rightarrow> string \<Rightarrow> 'r) \<Rightarrow> string \<Rightarrow> 'r" where
  "deleteConnection invoke connectionId = invoke ''delete_connection'' connectionId"

definition executeQuery ::
  "(string \<Rightarrow> ExecuteQueryParams \<Rightarrow> 'r) \<Rightarrow> ExecuteQueryParams \<Rightarrow> 'r" where
  "executeQuery invoke params = invoke ''execute_query'' params"

definition getTableData ::
  "(string \<Rightarrow> GetTableDataParams \<Rightarrow> 'r) \<Rightarrow> GetTableDataParams \<Rightarrow> 'r" where
  "getTableData invoke params = invoke ''get_table_data'' params"

section \<open>The connection dialog (handleTestConnection, handleSave)\<close>

record FormData =
  f_name :: string
  f_type :: DatabaseType
  f_host :: string
  f_port :: string
  f_database :: string
  f_username :: string
  f_password :: string

record TestResult =
  tr_success :: bool
  tr_message :: string

text \<open>
  The dialog's React state, with the \<^verbatim>\<open>open\<close> property that \<^verbatim>\<open>onOpenChange\<close> sets.
\<close>

record DialogState =
  d_formData :: FormData
  d_testing :: bool
  d_testResult :: "TestResult option"
  d_saving :: bool
  d_open :: bool

definition defaultFormData :: FormData where
  "defaultFormData =
     \<lparr>f_name = [], f_type = postgres, f_host = ''localhost'', f_port = ''5432'',
      f_database = [], f_username = [], f_password = []\<rparr>"

text \<open>
  \<^verbatim>\<open>a || b\<close> on an optional string: \<^verbatim>\<open>undefined\<close> and the empty string are falsy.
\<close>

definition or_default :: "string option \<Rightarrow> string \<Rightarrow> string" where
  "or_default a b = (case a of None \<Rightarrow> b | Some v \<Rightarrow> if v = [] then b else v)"

text \<open>\<^verbatim>\<open>err instanceof Error ? err.message : fallback\<close>\<close>

definition error_message :: "thrown \<Rightarrow> string \<Rightarrow> string" where
  "error_message err fallback = (case err of ErrorObject m \<Rightarrow> m | OtherValue \<Rightarrow> fallback)"

text \<open>
  \<^verbatim>\<open>parseInt(formData.port, 10)\<close> is the parameter \<open>parseInt10\<close>. The \<^verbatim>\<open>try\<close> body's
  outcome is the settled promise; \<^verbatim>\<open>catch\<close> is its \<open>RejectedWith\<close> branch and
  \<^verbatim>\<open>finally\<close> the last update.
\<close>

definition test_params :: "(string \<Rightarrow> js_number) \<Rightarrow> FormData \<Rightarrow> TestConnectionParams" where
  "test_params parseInt10 formData =
     \<lparr>tp_type = f_type formData, tp_host = f_host formData,
      tp_port = parseInt10 (f_port formData), tp_database = f_database formData,
      tp_username = f_username formData, tp_password = f_password formData\<rparr>"

definition handleTestConnection ::
  "(string \<Rightarrow> js_number) \<Rightarrow>
   (string \<Rightarrow> TestConnectionParams \<Rightarrow> TestConnectionResult promise) \<Rightarrow>
   DialogState \<Rightarrow> DialogState" where
  "handleTestConnection parseInt10 invoke d =
     (let formData = d_formData d;
          d1 = d\<lparr>d_testing := True, d_testResult := None\<rparr>;
          d2 = (case testConnection invoke (test_params parseInt10 formData) of
                  Fulfilled result \<Rightarrow>
                    d1\<lparr>d_testResult := Some
                         \<lparr>tr_success = tc_success result,
                          tr_message =
                            (if tc_success result then ''Connection successful!''
                             else or_default (tc_error result) ''Connection failed'')\<rparr>\<rparr>
                | RejectedWith err \<Rightarrow>
                    d1\<lparr>d_testResult := Some
                         \<lparr>tr_success = False,
                          tr_message = error_message err ''Connection test failed''\<rparr>\<rparr>)
      in d2\<lparr>d_testing := False\<rparr>)"

definition save_succeeded :: "DialogState \<Rightarrow> DialogState" where
  "save_succeeded d = d\<lparr>d_open := False, d_formData := defaultFormData, d_testResult := None\<rparr>"

definition save_failed :: "thrown \<Rightarrow> DialogState \<Rightarrow> DialogState" where
  "save_failed err d =
     d\<lparr>d_testResult := Some
         \<lparr>tr_success = False, tr_message = error_message err ''Failed to save connection''\<rparr>\<rparr>"

definition form_params :: "(string \<Rightarrow> js_number) \<Rightarrow> FormData \<Rightarrow> CreateConnectionParams" where
  "form_params parseInt10 formData =
     \<lparr>cp_name = f_name formData, cp_type = f_type formData, cp_host = f_host formData,
      cp_port = parseInt10 (f_port formData), cp_database = f_database formData,
      cp_username = f_username formData, cp_password = f_password formData\<rparr>"

text \<open>
  \<open>handleSave\<close> changes three things: the dialog, the store, and whatever the command
  \<^verbatim>\<open>create_connection\<close> changes behind \<^verbatim>\<open>invoke\<close> (a state of type \<open>'b\<close>, threaded
  through). \<open>save_succeeded\<close> is the tail of the \<^verbatim>\<open>try\<close> block, \<open>save_failed\<close> the
  \<^verbatim>\<open>catch\<close> block; \<^verbatim>\<open>finally\<close> clears \<^verbatim>\<open>saving\<close>.
\<close>

definition handleSave ::
  "(string \<Rightarrow> js_number) \<Rightarrow>
   (string \<Rightarrow> CreateConnectionParams \<Rightarrow> 'b \<Rightarrow> string promise \<times> 'b) \<Rightarrow>
   Connection option \<Rightarrow> DialogState \<times> ConnectionStore \<times> 'b \<Rightarrow>
   DialogState \<times> ConnectionStore \<times> 'b" where
  "handleSave parseInt10 invoke editConnection st =
     (case st of (d, store, backend) \<Rightarrow>
      let formData = d_formData d;
          d1 = d\<lparr>d_saving := True\<rparr>;
          (d2, store2, backend2) =
            (case editConnection of
               Some ec \<Rightarrow>
                 let store1 = updateConnection (c_id ec)
                       (no_connection_updates
                          \<lparr>uc_name := Some (f_name formData),
                           uc_type := Some (f_type formData),
                           uc_host := Some (f_host formData),
                           uc_port := Some (parseInt10 (f_port formData)),
                           uc_database := Some (f_database formData),
                           uc_username := Some (f_username formData)\<rparr>) store
                 in if f_password formData \<noteq> []
                    then (case createConnection invoke (form_params parseInt10 formData) backend of
                            (Fulfilled _, backend1) \<Rightarrow> (save_succeeded d1, store1, backend1)
                          | (RejectedWith err, backend1) \<Rightarrow> (save_failed err d1, store1, backend1))
                    else (save_succeeded d1, store1, backend)
             | None \<Rightarrow>
                 (case createConnection invoke (form_params parseInt10 formData) backend of
                    (Fulfilled connectionId, backend1) \<Rightarrow>
                      (save_succeeded d1,
                       addConnection
                         \<lparr>c_id = connectionId, c_name = f_name formData,
                          c_type = f_type formData, c_host = f_host formData,
                          c_port = parseInt10 (f_port formData),
                          c_database = f_database formData,
                          c_username = f_username formData,
                          c_isConnected = False, c_lastConnected = None\<rparr> store,
                       backend1)
                  | (RejectedWith err, backend1) \<Rightarrow> (save_failed err d1, store, backend1)))
      in (d2\<lparr>d_saving := False\<rparr>, store2, backend2))"

section \<open>The query editor's run path (handleRunQuery)\<close>

text \<open>
  \<^verbatim>\<open>String.prototype.trim\<close> removes the code points of ECMAScript's WhiteSpace and
  LineTerminator at both ends. Strings are byte lists here, read as UTF-8, so each of
  these code points is the byte sequence that encodes it: U+0009 to U+000D and U+0020
  (one byte); U+00A0 (two bytes); U+1680, U+2000 to U+200A, U+2028, U+2029, U+202F,
  U+205F, U+3000 and U+FEFF (three bytes). That is tab, line feed, vertical tab, form
  feed, carriage return, the byte order mark, the two Unicode line terminators and the
  space separators (category Zs).
\<close>

definition js_white_space :: "string list" where
  "js_white_space =
     [[CHR 0x09], [CHR 0x0A], [CHR 0x0B], [CHR 0x0C], [CHR 0x0D], [CHR 0x20],
      [CHR 0xC2, CHR 0xA0],
      [CHR 0xE1, CHR 0x9A, CHR 0x80],
      [CHR 0xE2, CHR 0x80, CHR 0x80], [CHR 0xE2, CHR 0x80, CHR 0x81],
      [CHR 0xE2, CHR 0x80, CHR 0x82], [CHR 0xE2, CHR 0x80, CHR 0x83],
      [CHR 0xE2, CHR 0x80, CHR 0x84], [CHR 0xE2, CHR 0x80, CHR 0x85],
      [CHR 0xE2, CHR 0x80, CHR 0x86], [CHR 0xE2, CHR 0x80, CHR 0x87],
      [CHR 0xE2, CHR 0x80, CHR 0x88], [CHR 0xE2, CHR 0x80, CHR 0x89],
      [CHR 0xE2, CHR 0x80, CHR 0x8A],
      [CHR 0xE2, CHR 0x80, CHR 0xA8], [CHR 0xE2, CHR 0x80, CHR 0xA9],
      [CHR 0xE2, CHR 0x80, CHR 0xAF],
      [CHR 0xE2, CHR 0x81, CHR 0x9F],
      [CHR 0xE3, CHR 0x80, CHR 0x80],
      [CHR 0xEF, CHR 0xBB, CHR 0xBF]]"

text \<open>
  \<open>strip_start ws s\<close> removes from the front of \<open>s\<close> every leading occurrence of a
  sequence of \<open>ws\<close>, until none is a prefix of what is left.
\<close>

function strip_start :: "string list \<Rightarrow> string \<Rightarrow> string" where
  "strip_start ws s =
     (case find (\<lambda>w. w \<noteq> [] \<and> take (length w) s = w) ws of
        None \<Rightarrow> s
      | Some w \<Rightarrow> strip_start ws (drop (length w) s))"
  by pat_completeness auto
termination
proof (relation "measure (\<lambda>(ws, s). length s)")
  show "wf (measure (\<lambda>(ws, s). length s))" by simp
next
  fix ws :: "string list" and s w :: string
  assume "find (\<lambda>w. w \<noteq> [] \<and> take (length w) s = w) ws = Some w"
  then have w: "w \<noteq> []" "take (length w) s = w"
    by (auto simp: find_Some_iff)
  from w(2) have "length (take (length w) s) = length w" by simp
  then have "length w \<le> length s" by simp
  with w(1) show "((ws, drop (length w) s), (ws, s)) \<in> measure (\<lambda>(ws, s). length s)"
    by (cases w) auto
qed

declare strip_start.simps [simp del]

text \<open>
  The end of the string is stripped on the reversed bytes, with the reversed encodings.
  In UTF-8 no encoding is the tail of another code point's encoding, so this removes
  exactly the trailing white-space code points.
\<close>

definition trim :: "string \<Rightarrow> string" where
  "trim s = rev (strip_start (map rev js_white_space) (rev (strip_start js_white_space s)))"

definition empty_result :: QueryResult where
  "empty_result = \<lparr>r_columns = [], r_rows = [], r_rowCount = Num 0, r_executionTimeMs = Num 0\<rparr>"

text \<open>
  The handler's inputs are the component's \<^verbatim>\<open>isRunning\<close> flag, the text of the
  editor model (\<open>None\<close> when \<^verbatim>\<open>editorRef.current?.getModel()?.getValue()\<close> is
  \<^verbatim>\<open>undefined\<close>) and the store. It returns the requests handed to \<^verbatim>\<open>executeQuery\<close>
  (none or one), the flag and the store. The handler is taken as one step: no other
  action runs while it awaits the command.
\<close>

definition handleRunQuery ::
  "(string \<Rightarrow> ExecuteQueryParams \<Rightarrow> QueryResult promise) \<Rightarrow>
   bool \<Rightarrow> string option \<Rightarrow> ConnectionStore \<Rightarrow>
   ExecuteQueryParams list \<times> bool \<times> ConnectionStore" where
  "handleRunQuery invoke isRunning editorValue state =
     (case (find (\<lambda>t. Some (t_id t) = activeTabId state) (queryTabs state),
            find (\<lambda>c. Some (c_id c) = activeConnectionId state) (connections state)) of
        (Some activeTab, Some activeConnection) \<Rightarrow>
          if isRunning then ([], isRunning, state)
          else
            let sql = or_default editorValue (t_sql activeTab)
            in if trim sql = [] then ([], isRunning, state)
               else
                 let state1 = updateQueryTab (t_id activeTab)
                                (no_tab_updates\<lparr>ut_isRunning := Some True\<rparr>) state;
                     params = \<lparr>ep_connectionId = c_id activeConnection, ep_sql = sql,
                               ep_limit = Some (Num 100), ep_offset = Some (Num 0)\<rparr>;
                     state2 =
                       (case executeQuery invoke params of
                          Fulfilled result \<Rightarrow>
                            updateQueryTab (t_id activeTab)
                              (no_tab_updates\<lparr>ut_isRunning := Some False,
                                              ut_results := Some (Some result)\<rparr>) state1
                        | RejectedWith err \<Rightarrow>
                            updateQueryTab (t_id activeTab)
                              (no_tab_updates\<lparr>ut_isRunning := Some False,
                                              ut_results := Some (Some empty_result)\<rparr>) state1)
                 in ([params], False, state2)
      | _ \<Rightarrow> ([], isRunning, state))"

section \<open>The backend behind the commands\<close>

text \<open>
  The Rust side of the application (vault, registry, query executor, pager) is reached
  through \<^verbatim>\<open>invoke\<close> only. Where a property depends on it, it is modelled here from
  the specification, one definition per contract.
\<close>

text \<open>Modelled from the spec: the failures of the Credential Vault (4.1, 7).\<close>

datatype VaultError = AccessDenied | NotFound | BackendUnavailable

text \<open>
  Modelled from the spec: the \<^verbatim>\<open>ConnectionProfile\<close> of the Connection Registry (3), which
  never contains a secret.
\<close>

record ConnectionProfile =
  pr_id :: string
  pr_name :: string
  pr_engineType :: DatabaseType
  pr_host :: string
  pr_port :: js_number
  pr_database :: string
  pr_username :: string

text \<open>
  Modelled from the spec: the state behind the commands, the Registry's profiles and the
  Vault's secrets keyed by profile id (2, 3). Pools are left out.
\<close>

record Backend =
  registry :: "ConnectionProfile list"
  vault :: "string \<rightharpoonup> string"

text \<open>
  Modelled from the spec: the Credential Vault's \<^verbatim>\<open>store(profileId, secret)\<close> (4.1),
  whose Rust implementation is missing; the OS secret store is a map from profile id
  to secret.
\<close>

definition vault_store :: "string \<Rightarrow> string \<Rightarrow> (string \<rightharpoonup> string) \<Rightarrow> (string \<rightharpoonup> string)" where
  "vault_store profileId secret v = v(profileId \<mapsto> secret)"

text \<open>
  Modelled from the spec: the Credential Vault's \<^verbatim>\<open>retrieve(profileId) -> secret | NotFound\<close>
  (4.1).
\<close>

definition vault_retrieve :: "(string \<rightharpoonup> string) \<Rightarrow> string \<Rightarrow> VaultError + string" where
  "vault_retrieve v profileId = (case v profileId of None \<Rightarrow> Inl NotFound | Some secret \<Rightarrow> Inr secret)"

text \<open>Modelled from the spec: the Credential Vault's \<^verbatim>\<open>delete(profileId)\<close> (4.1).\<close>

definition vault_delete :: "string \<Rightarrow> (string \<rightharpoonup> string) \<Rightarrow> (string \<rightharpoonup> string)" where
  "vault_delete profileId v = v(profileId := None)"

text \<open>
  Modelled from the spec: the Rust command \<^verbatim>\<open>create_connection\<close>, which is missing
  (\<^verbatim>\<open>createConnection\<close> in 6), the Registry's \<^verbatim>\<open>create(profile) -> id\<close> (4.2)
  followed by the Vault's \<^verbatim>\<open>store\<close>: it takes profile fields
  and a password, never an id, and answers with the id of the profile it created.
  \<open>newId\<close> is the identifier the Registry issues.
\<close>

definition create_connection ::
  "string \<Rightarrow> CreateConnectionParams \<Rightarrow> Backend \<Rightarrow> string promise \<times> Backend" where
  "create_connection newId params b =
     (Fulfilled newId,
      b\<lparr>registry := registry b @
           [\<lparr>pr_id = newId, pr_name = cp_name params, pr_engineType = cp_type params,
             pr_host = cp_host params, pr_port = cp_port params,
             pr_database = cp_database params, pr_username = cp_username params\<rparr>],
        vault := vault_store newId (cp_password params) (vault b)\<rparr>)"

text \<open>
  Modelled from the spec: the Rust command \<^verbatim>\<open>delete_connection\<close>, which is missing
  (\<^verbatim>\<open>deleteConnection\<close> in 6), the Registry's \<^verbatim>\<open>delete(id)\<close>, which triggers the Vault
  deletion for that id (4.2). The pool teardown
  it also triggers is outside this model.
\<close>

definition delete_connection :: "string \<Rightarrow> Backend \<Rightarrow> Backend" where
  "delete_connection profileId b =
     b\<lparr>registry := filter (\<lambda>p. pr_id p \<noteq> profileId) (registry b),
       vault := vault_delete profileId (vault b)\<rparr>"

text \<open>
  Modelled from the spec: \<^verbatim>\<open>invoke\<close> over this backend, for the one command that
  \<open>handleSave\<close> sends; a request under another command name is rejected.
\<close>

definition backend_create ::
  "string \<Rightarrow> string \<Rightarrow> CreateConnectionParams \<Rightarrow> Backend \<Rightarrow> string promise \<times> Backend" where
  "backend_create newId command params b =
     (if command = ''create_connection'' then create_connection newId params b
      else (RejectedWith OtherValue, b))"

text \<open>
  Modelled from the spec: \<^verbatim>\<open>invoke\<close> over this backend for the command that
  \<open>deleteConnection\<close> sends.
\<close>

definition backend_delete :: "string \<Rightarrow> string \<Rightarrow> Backend \<Rightarrow> unit promise \<times> Backend" where
  "backend_delete command profileId b =
     (if command = ''delete_connection'' then (Fulfilled (), delete_connection profileId b)
      else (RejectedWith OtherValue, b))"

text \<open>Modelled from the spec: the kinds of destructive statement of the Safety Guard (4.4).\<close>

datatype DestructiveKind =
  Drop | Truncate | DeleteWithoutWhere | UpdateWithoutWhere | AlterDestructive

text \<open>Modelled from the spec: the Safety Guard's classification result (4.4).\<close>

datatype Classification = Safe | Destructive DestructiveKind

text \<open>Modelled from the spec: the \<^verbatim>\<open>QueryError\<close> taxonomy (7).\<close>

datatype QueryError =
  Rejected string | Cancelled | ConfirmationRequired DestructiveKind | Timeout

text \<open>
  Modelled from the spec: the \<^verbatim>\<open>QueryRequest\<close> (3), without its cancellation token; the
  row limit is optional because a caller may omit it (4.5).
\<close>

record QueryRequest =
  q_profileId :: string
  q_sql :: string
  q_rowLimit :: "nat option"
  q_offset :: nat

text \<open>Modelled from the spec: the default row bound of the Query Executor, "e.g. 100" (4.5).\<close>

definition default_row_limit :: nat where
  "default_row_limit = 100"

text \<open>
  Modelled from the spec: the row limit that applies to a request, the default bound when
  the caller omits one (4.5).
\<close>

definition row_bound :: "QueryRequest \<Rightarrow> nat" where
  "row_bound req = (case q_rowLimit req of None \<Rightarrow> default_row_limit | Some n \<Rightarrow> n)"

text \<open>
  Modelled from the spec: the Query Executor's \<^verbatim>\<open>execute(QueryRequest, confirmed)\<close> (4.5),
  whose Rust implementation is missing: classify; refuse a destructive statement that is not confirmed, before anything
  reaches the engine; otherwise issue the statement and stream rows up to the row
  limit. The Safety Guard's classifier and the database engine are parameters; the
  engine answers with the rows of the statement (or a statement error) and the
  database it leaves.
\<close>

definition execute ::
  "(string \<Rightarrow> Classification) \<Rightarrow>
   (QueryRequest \<Rightarrow> 'db \<Rightarrow> (QueryError + 'row list) \<times> 'db) \<Rightarrow>
   QueryRequest \<Rightarrow> bool \<Rightarrow> 'db \<Rightarrow> (QueryError + 'row list) \<times> 'db" where
  "execute classify engine req confirmed db =
     (let run = (case engine req db of
                   (Inl e, db') \<Rightarrow> (Inl e, db')
                 | (Inr rows, db') \<Rightarrow> (Inr (take (row_bound req) rows), db'))
      in case classify (q_sql req) of
           Safe \<Rightarrow> run
         | Destructive kind \<Rightarrow>
             if confirmed then run else (Inl (ConfirmationRequired kind), db))"

text \<open>Modelled from the spec: a page of the Cursor Pager, its rows and \<^verbatim>\<open>hasMore\<close> (4.7).\<close>

record 'row Page =
  pg_rows :: "'row list"
  pg_hasMore :: bool

text \<open>
  Modelled from the spec: the Cursor Pager's page (4.7), whose Rust implementation is
  missing: of the fetched batch the first
  \<open>pageSize\<close> rows are returned, an extra row is dropped, and \<^verbatim>\<open>hasMore\<close> is false
  exactly when the batch has at most \<open>pageSize\<close> rows.
\<close>

definition page_of :: "nat \<Rightarrow> 'row list \<Rightarrow> 'row Page" where
  "page_of pageSize batch =
     \<lparr>pg_rows = take pageSize batch, pg_hasMore = (\<not> length batch \<le> pageSize)\<rparr>"

text \<open>
  Modelled from the spec: the keyset fetch (4.7): the rows whose key is strictly greater
  than the last cursor key (all rows on the first page), in ascending key order, limited
  to \<open>pageSize + 1\<close>. \<open>ordered\<close> is the table in ascending key order.
\<close>

definition keyset_fetch :: "('row \<Rightarrow> int) \<Rightarrow> int option \<Rightarrow> nat \<Rightarrow> 'row list \<Rightarrow> 'row list" where
  "keyset_fetch key cursor pageSize ordered =
     take (pageSize + 1)
       (filter (\<lambda>r. case cursor of None \<Rightarrow> True | Some k \<Rightarrow> k < key r) ordered)"

section \<open>Example states\<close>

definition ex_conn1 :: Connection where
  "ex_conn1 =
     \<lparr>c_id = ''c1'', c_name = ''prod'', c_type = postgres, c_host = ''db.local'',
      c_port = Num 5432, c_database = ''app'', c_username = ''alice'',
      c_isConnected = False, c_lastConnected = None\<rparr>"

definition ex_conn2 :: Connection where
  "ex_conn2 =
     \<lparr>c_id = ''c2'', c_name = ''staging'', c_type = mysql, c_host = ''10.0.0.7'',
      c_port = Num 3306, c_database = ''shop'', c_username = ''bob'',
      c_isConnected = True, c_lastConnected = Some ''2024-01-01T00:00:00.000Z''\<rparr>"

definition ex_tab1 :: QueryTab where
  "ex_tab1 =
     \<lparr>t_id = ''t1'', t_connectionId = ''c1'', t_title = ''Query 1'',
      t_sql = ''DROP TABLE users'', t_results = None, t_isRunning = False\<rparr>"

definition ex_tab2 :: QueryTab where
  "ex_tab2 =
     \<lparr>t_id = ''t2'', t_connectionId = ''c2'', t_title = ''Query 1'',
      t_sql = ''SELECT 1'', t_results = None, t_isRunning = False\<rparr>"

definition ex_store :: ConnectionStore where
  "ex_store =
     \<lparr>connections = [ex_conn1, ex_conn2], activeConnectionId = Some ''c1'',
      queryTabs = [ex_tab1, ex_tab2], activeTabId = Some ''t1'', tables = [],
      sidebarWidth = Num 260, theme = dark\<rparr>"

definition ex_form :: FormData where
  "ex_form =
     \<lparr>f_name = ''prod-renamed'', f_type = postgres, f_host = ''db.local'',
      f_port = ''5433'', f_database = ''app'', f_username = ''alice'',
      f_password = ''new-secret''\<rparr>"

definition ex_dialog :: DialogState where
  "ex_dialog =
     \<lparr>d_formData = ex_form, d_testing = False, d_testResult = None, d_saving = False,
      d_open = True\<rparr>"

definition ex_backend :: Backend where
  "ex_backend =
     \<lparr>registry =
        [\<lparr>pr_id = ''c1'', pr_name = ''prod'', pr_engineType = postgres,
          pr_host = ''db.local'', pr_port = Num 5432, pr_database = ''app'',
          pr_username = ''alice''\<rparr>],
      vault = [''c1'' \<mapsto> ''old-secret'']\<rparr>"

section \<open>Decimal titles\<close>

lemma digit_char_of_char: "d < 10 \<Longrightarrow> of_char (digit_char d) = (48 + d :: nat)"
proof -
  assume "d < 10"
  then have "d = 0 \<or> d = 1 \<or> d = 2 \<or> d = 3 \<or> d = 4 \<or> d = 5 \<or> d = 6 \<or> d = 7
    \<or> d = 8 \<or> d = 9" by arith
  then show ?thesis by (elim disjE) (simp_all add: digit_char_def)
qed

lemma nat_of_string_of_nat: "nat_of_string (string_of_nat n) = n"
proof (induction n rule: string_of_nat.induct)
  case (1 n)
  show ?case
  proof (cases "n < 10")
    case True
    then show ?thesis
      by (simp add: string_of_nat.simps[of n] nat_of_string_def digit_char_of_char)
  next
    case False
    with 1 have "nat_of_string (string_of_nat (n div 10)) = n div 10" by simp
    with False show ?thesis
      by (simp add: string_of_nat.simps[of n] nat_of_string_def digit_char_of_char)
  qed
qed

section \<open>The persisted projection (C1)\<close>

text \<open>
  C1, as amended. For every store state, reachable or not, the persisted projection
  consists of the sidebar width, the theme and the connection list, in the same order
  and of the same length, where each entry is the connection with \<^verbatim>\<open>isConnected\<close>
  forced to false and every other field of the \<^verbatim>\<open>Connection\<close> record carried over:
  id, name, engine type, host, port, database, username and also \<^verbatim>\<open>lastConnected\<close>.
  An entry is exactly this nine-field record, so it has no password. The active
  connection, the query tabs, the active tab, the table list and the \<^verbatim>\<open>isConnected\<close>
  flags have no influence on what is persisted.
\<close>

theorem partialize_projection:
  "p_sidebarWidth (partialize s) = sidebarWidth s \<and>
   p_theme (partialize s) = theme s \<and>
   length (p_connections (partialize s)) = length (connections s) \<and>
   (\<forall>i < length (connections s).
      p_connections (partialize s) ! i =
        \<lparr>c_id = c_id (connections s ! i), c_name = c_name (connections s ! i),
         c_type = c_type (connections s ! i), c_host = c_host (connections s ! i),
         c_port = c_port (connections s ! i), c_database = c_database (connections s ! i),
         c_username = c_username (connections s ! i), c_isConnected = False,
         c_lastConnected = c_lastConnected (connections s ! i)\<rparr>) \<and>
   partialize (s\<lparr>activeConnectionId := a, queryTabs := q, activeTabId := t, tables := tb\<rparr>)
     = partialize s \<and>
   partialize (s\<lparr>connections := map (\<lambda>c. c\<lparr>c_isConnected := flag c\<rparr>) (connections s)\<rparr>)
     = partialize s"
  by (simp add: partialize_def)

text \<open>
  Witness for C1: in the example store the second connection is connected and has a
  \<^verbatim>\<open>lastConnected\<close> stamp; its persisted entry is disconnected and keeps the stamp.
\<close>

theorem partialize_projection_witness:
  "1 < length (connections ex_store) \<and>
   p_connections (partialize ex_store) ! 1 =
     \<lparr>c_id = ''c2'', c_name = ''staging'', c_type = mysql, c_host = ''10.0.0.7'',
      c_port = Num 3306, c_database = ''shop'', c_username = ''bob'',
      c_isConnected = False, c_lastConnected = Some ''2024-01-01T00:00:00.000Z''\<rparr>"
  using partialize_projection [of ex_store]
  by (simp add: ex_store_def ex_conn1_def ex_conn2_def)

text \<open>
  Counterexample to C1 as stated (entries restricted to id, name, engine type, host,
  port, database and username, no connectivity status): after \<^verbatim>\<open>addConnection\<close> and
  \<^verbatim>\<open>setConnectionStatus(id, true)\<close>, a reachable state, the persisted entry carries the
  time of the last connection.
\<close>

theorem partialize_lastConnected_counterexample:
  "reachable (setConnectionStatus ''2024-01-01T00:00:00.000Z'' ''c1'' True
                (addConnection ex_conn1 initial_store)) \<and>
   map c_lastConnected
     (p_connections (partialize (setConnectionStatus ''2024-01-01T00:00:00.000Z'' ''c1'' True
                (addConnection ex_conn1 initial_store))))
     = [Some ''2024-01-01T00:00:00.000Z'']"
proof
  show "reachable (setConnectionStatus ''2024-01-01T00:00:00.000Z'' ''c1'' True
                (addConnection ex_conn1 initial_store))"
    by (intro reachable.intros)
  show "map c_lastConnected
     (p_connections (partialize (setConnectionStatus ''2024-01-01T00:00:00.000Z'' ''c1'' True
                (addConnection ex_conn1 initial_store))))
     = [Some ''2024-01-01T00:00:00.000Z'']"
    by (simp add: partialize_def setConnectionStatus_def addConnection_def initial_store_def
        ex_conn1_def)
qed

section \<open>Frame of the two update actions (C8)\<close>

text \<open>
  C8. For ids \<open>X \<noteq> Y\<close>, \<^verbatim>\<open>updateConnection(X, updates)\<close> leaves every connection with id
  \<open>Y\<close> as it is, at its position in a list of unchanged length, and
  \<^verbatim>\<open>updateQueryTab(X, updates)\<close> does the same for every query tab with id \<open>Y\<close>; both
  leave all other fields of the store unchanged.
\<close>

theorem update_frame:
  "X \<noteq> Y \<Longrightarrow>
   length (connections (updateConnection X u s)) = length (connections s) \<and>
   (\<forall>i < length (connections s). c_id (connections s ! i) = Y \<longrightarrow>
        connections (updateConnection X u s) ! i = connections s ! i) \<and>
   queryTabs (updateConnection X u s) = queryTabs s \<and>
   activeConnectionId (updateConnection X u s) = activeConnectionId s \<and>
   activeTabId (updateConnection X u s) = activeTabId s \<and>
   tables (updateConnection X u s) = tables s \<and>
   sidebarWidth (updateConnection X u s) = sidebarWidth s \<and>
   theme (updateConnection X u s) = theme s \<and>
   length (queryTabs (updateQueryTab X v s)) = length (queryTabs s) \<and>
   (\<forall>i < length (queryTabs s). t_id (queryTabs s ! i) = Y \<longrightarrow>
        queryTabs (updateQueryTab X v s) ! i = queryTabs s ! i) \<and>
   connections (updateQueryTab X v s) = connections s \<and>
   activeConnectionId (updateQueryTab X v s) = activeConnectionId s \<and>
   activeTabId (updateQueryTab X v s) = activeTabId s \<and>
   tables (updateQueryTab X v s) = tables s \<and>
   sidebarWidth (updateQueryTab X v s) = sidebarWidth s \<and>
   theme (updateQueryTab X v s) = theme s"
  by (simp add: updateConnection_def updateQueryTab_def)

text \<open>
  Witness for C8: renaming connection \<open>c1\<close> leaves connection \<open>c2\<close> alone, and marking
  tab \<open>t1\<close> as running leaves tab \<open>t2\<close> alone.
\<close>

theorem update_frame_witness:
  "''c1'' \<noteq> ''c2'' \<and> 1 < length (connections ex_store) \<and>
   c_id (connections ex_store ! 1) = ''c2'' \<and>
   connections (updateConnection ''c1'' (no_connection_updates\<lparr>uc_name := Some ''x''\<rparr>) ex_store) ! 1
     = ex_conn2 \<and>
   ''t1'' \<noteq> ''t2'' \<and> 1 < length (queryTabs ex_store) \<and>
   t_id (queryTabs ex_store ! 1) = ''t2'' \<and>
   queryTabs (updateQueryTab ''t1'' (no_tab_updates\<lparr>ut_isRunning := Some True\<rparr>) ex_store) ! 1
     = ex_tab2"
  using update_frame [of "''c1''" "''c2''" "no_connection_updates\<lparr>uc_name := Some ''x''\<rparr>"
      ex_store no_tab_updates]
    update_frame [of "''t1''" "''t2''" no_connection_updates ex_store
      "no_tab_updates\<lparr>ut_isRunning := Some True\<rparr>"]
  by (simp add: ex_store_def ex_conn1_def ex_conn2_def ex_tab1_def ex_tab2_def)

section \<open>Query tabs (C9, C10)\<close>

text \<open>
  C9. \<^verbatim>\<open>addQueryTab(connectionId)\<close> appends exactly one tab to the tab list. Its title is
  "Query N" with N, in decimal, one plus the number of tabs the connection had; its SQL
  text is empty, it has no results and is not running; it becomes the active tab.
  Nothing else in the store changes.
\<close>

theorem addQueryTab_appends:
  "queryTabs (addQueryTab newTabId cid s) =
     queryTabs s @
       [\<lparr>t_id = newTabId, t_connectionId = cid,
         t_title = ''Query '' @ string_of_nat
                     (Suc (length (filter (\<lambda>t. t_connectionId t = cid) (queryTabs s)))),
         t_sql = [], t_results = None, t_isRunning = False\<rparr>] \<and>
   nat_of_string (string_of_nat
       (Suc (length (filter (\<lambda>t. t_connectionId t = cid) (queryTabs s)))))
     = Suc (length (filter (\<lambda>t. t_connectionId t = cid) (queryTabs s))) \<and>
   activeTabId (addQueryTab newTabId cid s) = Some newTabId \<and>
   connections (addQueryTab newTabId cid s) = connections s \<and>
   activeConnectionId (addQueryTab newTabId cid s) = activeConnectionId s \<and>
   tables (addQueryTab newTabId cid s) = tables s \<and>
   sidebarWidth (addQueryTab newTabId cid s) = sidebarWidth s \<and>
   theme (addQueryTab newTabId cid s) = theme s"
  by (simp add: addQueryTab_def Let_def nat_of_string_of_nat)

text \<open>
  Witness for C9: connection \<open>c1\<close> has one tab in the example store, so its new tab is
  "Query 2".
\<close>

theorem addQueryTab_appends_witness:
  "queryTabs (addQueryTab ''t3'' ''c1'' ex_store) =
     [ex_tab1, ex_tab2,
      \<lparr>t_id = ''t3'', t_connectionId = ''c1'', t_title = ''Query 2'', t_sql = [],
       t_results = None, t_isRunning = False\<rparr>] \<and>
   activeTabId (addQueryTab ''t3'' ''c1'' ex_store) = Some ''t3''"
  using addQueryTab_appends [of "''t3''" "''c1''" ex_store]
  by (simp add: ex_store_def ex_tab1_def ex_tab2_def string_of_nat.simps digit_char_def)

text \<open>
  C10. \<^verbatim>\<open>removeQueryTab(id)\<close> removes the tabs with that id and keeps the others in
  order. If the removed id was the active tab, the active tab becomes the last tab of
  the remaining list, or null when no tab remains; otherwise the active tab stays.
\<close>

theorem removeQueryTab_active:
  "queryTabs (removeQueryTab tid s) = filter (\<lambda>t. t_id t \<noteq> tid) (queryTabs s) \<and>
   (activeTabId s = Some tid \<longrightarrow>
      activeTabId (removeQueryTab tid s) =
        (if queryTabs (removeQueryTab tid s) = [] then None
         else Some (t_id (last (queryTabs (removeQueryTab tid s)))))) \<and>
   (activeTabId s \<noteq> Some tid \<longrightarrow> activeTabId (removeQueryTab tid s) = activeTabId s) \<and>
   connections (removeQueryTab tid s) = connections s \<and>
   activeConnectionId (removeQueryTab tid s) = activeConnectionId s \<and>
   tables (removeQueryTab tid s) = tables s \<and>
   sidebarWidth (removeQueryTab tid s) = sidebarWidth s \<and>
   theme (removeQueryTab tid s) = theme s"
  by (simp add: removeQueryTab_def Let_def last_conv_nth)

text \<open>
  Witness for C10: closing the active tab \<open>t1\<close> activates \<open>t2\<close>, the last one left;
  closing \<open>t2\<close> keeps \<open>t1\<close> active; closing the only tab leaves no active tab.
\<close>

theorem removeQueryTab_active_witness:
  "activeTabId ex_store = Some ''t1'' \<and>
   queryTabs (removeQueryTab ''t1'' ex_store) = [ex_tab2] \<and>
   activeTabId (removeQueryTab ''t1'' ex_store) = Some ''t2'' \<and>
   activeTabId ex_store \<noteq> Some ''t2'' \<and>
   queryTabs (removeQueryTab ''t2'' ex_store) = [ex_tab1] \<and>
   activeTabId (removeQueryTab ''t2'' ex_store) = Some ''t1'' \<and>
   activeTabId (removeQueryTab ''t1'' (ex_store\<lparr>queryTabs := [ex_tab1]\<rparr>)) = None"
  using removeQueryTab_active [of "''t1''" ex_store]
    removeQueryTab_active [of "''t2''" ex_store]
    removeQueryTab_active [of "''t1''" "ex_store\<lparr>queryTabs := [ex_tab1]\<rparr>"]
  by (simp add: ex_store_def ex_tab1_def ex_tab2_def)

section \<open>The connection test (C5)\<close>

text \<open>
  C5. Whatever the command \<^verbatim>\<open>test_connection\<close> does once it settles, resolve with
  \<^verbatim>\<open>{success, error?}\<close> or reject, \<^verbatim>\<open>handleTestConnection\<close> ends with \<^verbatim>\<open>testing\<close> false
  and a test result set. When the call resolves, the result has the reported success
  flag and the message "Connection successful!", or on failure the reported error, or
  "Connection failed" when no error (or an empty one) is reported. When the call
  rejects, the result is a failure whose message is the \<^verbatim>\<open>Error\<close>'s message or
  "Connection test failed". No exception leaves the handler: its model is a total
  function whose \<^verbatim>\<open>catch\<close> branch takes every rejection. The form, \<^verbatim>\<open>saving\<close> and
  \<^verbatim>\<open>open\<close> are left as they were.
\<close>

theorem handleTestConnection_result:
  "\<not> d_testing (handleTestConnection parseInt10 invoke d) \<and>
   d_testResult (handleTestConnection parseInt10 invoke d) \<noteq> None \<and>
   (invoke ''test_connection'' (test_params parseInt10 (d_formData d)) = Fulfilled res \<longrightarrow>
      d_testResult (handleTestConnection parseInt10 invoke d) =
        Some \<lparr>tr_success = tc_success res,
              tr_message =
                (if tc_success res then ''Connection successful!''
                 else case tc_error res of
                        None \<Rightarrow> ''Connection failed''
                      | Some e \<Rightarrow> if e = [] then ''Connection failed'' else e)\<rparr>) \<and>
   (invoke ''test_connection'' (test_params parseInt10 (d_formData d)) = RejectedWith err \<longrightarrow>
      d_testResult (handleTestConnection parseInt10 invoke d) =
        Some \<lparr>tr_success = False,
              tr_message = (case err of ErrorObject m \<Rightarrow> m
                            | OtherValue \<Rightarrow> ''Connection test failed'')\<rparr>) \<and>
   d_formData (handleTestConnection parseInt10 invoke d) = d_formData d \<and>
   d_saving (handleTestConnection parseInt10 invoke d) = d_saving d \<and>
   d_open (handleTestConnection parseInt10 invoke d) = d_open d"
  by (simp add: handleTestConnection_def testConnection_def Let_def or_default_def
      error_message_def split: promise.splits)

text \<open>
  Witness for C5: a command that resolves with \<^verbatim>\<open>{success: false, error: "Unreachable"}\<close>
  and one that rejects with a value that is not an \<^verbatim>\<open>Error\<close>.
\<close>

theorem handleTestConnection_result_witness:
  "(\<lambda>c p. Fulfilled \<lparr>tc_success = False, tc_error = Some ''Unreachable''\<rparr>)
      ''test_connection'' (test_params (\<lambda>x. Num 5433) (d_formData ex_dialog))
     = Fulfilled \<lparr>tc_success = False, tc_error = Some ''Unreachable''\<rparr> \<and>
   handleTestConnection (\<lambda>x. Num 5433)
      (\<lambda>c p. Fulfilled \<lparr>tc_success = False, tc_error = Some ''Unreachable''\<rparr>) ex_dialog
     = ex_dialog\<lparr>d_testResult := Some \<lparr>tr_success = False, tr_message = ''Unreachable''\<rparr>\<rparr> \<and>
   handleTestConnection (\<lambda>x. Num 5433) (\<lambda>c p. RejectedWith OtherValue) ex_dialog
     = ex_dialog\<lparr>d_testResult :=
         Some \<lparr>tr_success = False, tr_message = ''Connection test failed''\<rparr>\<rparr>"
  using handleTestConnection_result [of "\<lambda>x. Num 5433"
      "\<lambda>c p. Fulfilled \<lparr>tc_success = False, tc_error = Some ''Unreachable''\<rparr>" ex_dialog
      "\<lparr>tc_success = False, tc_error = Some ''Unreachable''\<rparr>"]
    handleTestConnection_result [of "\<lambda>x. Num 5433" "\<lambda>c p. RejectedWith OtherValue" ex_dialog
      "\<lparr>tc_success = True, tc_error = None\<rparr>" OtherValue]
  by (simp add: ex_dialog_def DialogState.equality)

section \<open>Saving an edited connection (C6)\<close>

text \<open>
  In edit mode the store entry is updated in place, whatever the command does.
\<close>

lemma handleSave_edit_store:
  "fst (snd (handleSave parseInt10 invoke (Some ec) (d, store, backend))) =
   updateConnection (c_id ec)
     (no_connection_updates
        \<lparr>uc_name := Some (f_name (d_formData d)), uc_type := Some (f_type (d_formData d)),
         uc_host := Some (f_host (d_formData d)),
         uc_port := Some (parseInt10 (f_port (d_formData d))),
         uc_database := Some (f_database (d_formData d)),
         uc_username := Some (f_username (d_formData d))\<rparr>) store"
  by (simp add: handleSave_def Let_def split: prod.splits promise.splits)

text \<open>
  What reaches the backend in edit mode does not depend on which connection is edited:
  the request is built from the form alone, and the form has no id.
\<close>

lemma handleSave_edit_backend_ignores_id:
  "snd (snd (handleSave parseInt10 invoke (Some ec) (d, store, backend))) =
   snd (snd (handleSave parseInt10 invoke (Some ec') (d, store', backend)))"
  by (simp add: handleSave_def Let_def split: prod.splits promise.splits)

text \<open>
  With the command as specified, a non-empty password therefore lands under the id of a
  new profile, and the secret of the edited profile stays what it was.
\<close>

lemma handleSave_edit_password_backend:
  "f_password (d_formData d) \<noteq> [] \<Longrightarrow> newId \<noteq> c_id ec \<Longrightarrow>
   handleSave parseInt10 (backend_create newId) (Some ec) (d, store, b) = (d', store', b') \<Longrightarrow>
   vault b' (c_id ec) = vault b (c_id ec) \<and>
   vault b' newId = Some (f_password (d_formData d)) \<and>
   map pr_id (registry b') = map pr_id (registry b) @ [newId]"
  by (auto simp: handleSave_def Let_def createConnection_def backend_create_def
      create_connection_def vault_store_def form_params_def split: prod.splits promise.splits)

text \<open>
  C6, at the failing input. Connection \<open>c1\<close> is edited with the new name
  "prod-renamed", port "5433" and the new password "new-secret", while the vault holds
  "old-secret" for \<open>c1\<close> and the registry issues \<open>c3\<close> as its next id. The store entry
  keeps its id and position and takes the edited fields, as C6 says. But the secret
  stored for \<open>c1\<close> is still "old-secret": the new password is stored under \<open>c3\<close>, the id
  of a second profile that the save created in the registry. The dialog closes without
  an error.
\<close>

theorem handleSave_edit_password_creates_profile:
  "(case handleSave (\<lambda>x. Num 5433) (backend_create ''c3'') (Some ex_conn1)
           (ex_dialog, ex_store, ex_backend) of
      (d', store', backend') \<Rightarrow>
        map c_id (connections store') = [''c1'', ''c2''] \<and>
        connections store' ! 0 = ex_conn1\<lparr>c_name := ''prod-renamed'', c_port := Num 5433\<rparr> \<and>
        vault_retrieve (vault backend') ''c1'' = Inr ''old-secret'' \<and>
        vault_retrieve (vault backend') ''c3'' = Inr ''new-secret'' \<and>
        map pr_id (registry backend') = [''c1'', ''c3''] \<and>
        d_testResult d' = None \<and> \<not> d_open d')"
  by (simp add: handleSave_def Let_def createConnection_def backend_create_def
      create_connection_def vault_store_def vault_retrieve_def form_params_def
      updateConnection_def spread_connection_def spread_def no_connection_updates_def
      save_succeeded_def ex_dialog_def ex_store_def ex_backend_def ex_conn1_def ex_conn2_def
      ex_form_def)

section \<open>Deleting a connection (C7)\<close>

text \<open>
  C7. Deleting the connection with a given id removes it entirely. In the store,
  \<^verbatim>\<open>removeConnection\<close> keeps exactly the connections with another id and exactly the
  query tabs of other connections, and resets \<^verbatim>\<open>activeConnectionId\<close> to null if it
  pointed at the deleted connection and leaves it as it was otherwise. In the backend
  as specified, after the command that \<open>deleteConnection\<close> sends, the profile has left
  the registry and its secret has left the vault, so that a subsequent \<^verbatim>\<open>retrieve\<close> of
  that id answers \<^verbatim>\<open>NotFound\<close>; the secrets of other ids are not touched.
\<close>

theorem delete_connection_removes_entirely:
  "connections (removeConnection cid s) = filter (\<lambda>c. c_id c \<noteq> cid) (connections s) \<and>
   (\<forall>c \<in> set (connections (removeConnection cid s)). c_id c \<noteq> cid) \<and>
   registry (snd (deleteConnection backend_delete cid b))
     = filter (\<lambda>p. pr_id p \<noteq> cid) (registry b) \<and>
   (\<forall>p \<in> set (registry (snd (deleteConnection backend_delete cid b))). pr_id p \<noteq> cid) \<and>
   vault_retrieve (vault (snd (deleteConnection backend_delete cid b))) cid = Inl NotFound \<and>
   (\<forall>other. other \<noteq> cid \<longrightarrow>
      vault_retrieve (vault (snd (deleteConnection backend_delete cid b))) other
        = vault_retrieve (vault b) other) \<and>
   queryTabs (removeConnection cid s) = filter (\<lambda>t. t_connectionId t \<noteq> cid) (queryTabs s) \<and>
   (\<forall>t \<in> set (queryTabs (removeConnection cid s)). t_connectionId t \<noteq> cid) \<and>
   (activeConnectionId s = Some cid \<longrightarrow> activeConnectionId (removeConnection cid s) = None) \<and>
   (activeConnectionId s \<noteq> Some cid \<longrightarrow>
      activeConnectionId (removeConnection cid s) = activeConnectionId s)"
  by (simp add: removeConnection_def deleteConnection_def backend_delete_def
      delete_connection_def vault_retrieve_def vault_delete_def)

text \<open>
  Witness for C7: deleting \<open>c1\<close>, the active connection with a stored secret, and
  deleting \<open>c2\<close>, which is not the active one.
\<close>

theorem delete_connection_removes_entirely_witness:
  "vault_retrieve (vault ex_backend) ''c1'' = Inr ''old-secret'' \<and>
   vault_retrieve (vault (snd (deleteConnection backend_delete ''c1'' ex_backend))) ''c1'' = Inl NotFound \<and>
   registry (snd (deleteConnection backend_delete ''c1'' ex_backend)) = [] \<and>
   connections (removeConnection ''c1'' ex_store) = [ex_conn2] \<and>
   queryTabs (removeConnection ''c1'' ex_store) = [ex_tab2] \<and>
   activeConnectionId ex_store = Some ''c1'' \<and>
   activeConnectionId (removeConnection ''c1'' ex_store) = None \<and>
   activeConnectionId ex_store \<noteq> Some ''c2'' \<and>
   connections (removeConnection ''c2'' ex_store) = [ex_conn1] \<and>
   activeConnectionId (removeConnection ''c2'' ex_store) = Some ''c1''"
  using delete_connection_removes_entirely [of "''c1''" ex_store ex_backend]
    delete_connection_removes_entirely [of "''c2''" ex_store ex_backend]
  by (simp add: ex_store_def ex_backend_def ex_conn1_def ex_conn2_def ex_tab1_def ex_tab2_def
      vault_retrieve_def deleteConnection_def backend_delete_def delete_connection_def
      vault_delete_def)

section \<open>Running a query (C2, C3)\<close>

lemma ExecuteQueryParams_eqI:
  "ep_connectionId p = ep_connectionId q \<Longrightarrow> ep_sql p = ep_sql q \<Longrightarrow>
   ep_limit p = ep_limit q \<Longrightarrow> ep_offset p = ep_offset q \<Longrightarrow>
   p = (q :: ExecuteQueryParams)"
  by (cases p, cases q) simp

lemma execute_bound:
  "execute classify engine req confirmed db = (Inr rows, db') \<Longrightarrow> length rows \<le> row_bound req"
  by (auto simp: execute_def Let_def split: Classification.splits prod.splits sum.splits if_splits)

lemma handleRunQuery_requests:
  "p \<in> set (fst (handleRunQuery invoke isRunning editorValue s)) \<Longrightarrow>
   ep_limit p = Some (Num 100) \<and> ep_offset p = Some (Num 0)"
  by (auto simp: handleRunQuery_def Let_def split: option.splits if_splits)

text \<open>
  A statement that is blank after \<^verbatim>\<open>trim\<close> is not submitted; a no-break space alone,
  U+00A0, is blank.
\<close>

lemma handleRunQuery_blank:
  "find (\<lambda>t. Some (t_id t) = activeTabId s) (queryTabs s) = Some tab \<Longrightarrow>
   trim (or_default editorValue (t_sql tab)) = [] \<Longrightarrow>
   handleRunQuery invoke isRunning editorValue s = ([], isRunning, s)"
  by (simp add: handleRunQuery_def Let_def split: option.splits)

lemma trim_no_break_space: "trim [CHR 0xC2, CHR 0xA0] = []"
  by (simp add: trim_def js_white_space_def strip_start.simps)

lemma trim_drop_table: "trim ''DROP TABLE users'' = ''DROP TABLE users''"
  by (simp add: trim_def js_white_space_def strip_start.simps)

lemma trim_statement:
  "trim ([CHR 0xEF, CHR 0xBB, CHR 0xBF] @ '' DROP TABLE users '' @ [CHR 0xE2, CHR 0x80, CHR 0xA8])
     = ''DROP TABLE users''"
  by (simp add: trim_def js_white_space_def strip_start.simps)

text \<open>
  Counterexample to C2 as stated. The parameters of \<^verbatim>\<open>executeQuery\<close> are connectionId,
  sql, limit and offset, and nothing else. So there are no two calls for the statement
  \<^verbatim>\<open>DROP TABLE users\<close> on connection \<open>c1\<close>, with the same limit and offset, of which one
  (the unconfirmed one) is refused with \<^verbatim>\<open>ConfirmationRequired(Drop)\<close> and the other
  (the confirmed one) executes, whatever the command behind \<^verbatim>\<open>invoke\<close> does.
\<close>

theorem executeQuery_confirmation_counterexample:
  "\<not> (\<exists>(invoke :: string \<Rightarrow> ExecuteQueryParams \<Rightarrow> QueryError + QueryResult) p q r.
        ep_connectionId p = ''c1'' \<and> ep_connectionId q = ''c1'' \<and>
        ep_sql p = ''DROP TABLE users'' \<and> ep_sql q = ''DROP TABLE users'' \<and>
        ep_limit p = ep_limit q \<and> ep_offset p = ep_offset q \<and>
        executeQuery invoke p = Inl (ConfirmationRequired Drop) \<and>
        executeQuery invoke q = Inr r)"
proof
  assume "\<exists>(invoke :: string \<Rightarrow> ExecuteQueryParams \<Rightarrow> QueryError + QueryResult) p q r.
        ep_connectionId p = ''c1'' \<and> ep_connectionId q = ''c1'' \<and>
        ep_sql p = ''DROP TABLE users'' \<and> ep_sql q = ''DROP TABLE users'' \<and>
        ep_limit p = ep_limit q \<and> ep_offset p = ep_offset q \<and>
        executeQuery invoke p = Inl (ConfirmationRequired Drop) \<and>
        executeQuery invoke q = Inr r"
  then obtain invoke :: "string \<Rightarrow> ExecuteQueryParams \<Rightarrow> QueryError + QueryResult"
    and p q r where
    f: "ep_connectionId p = ''c1''" "ep_connectionId q = ''c1''"
       "ep_sql p = ''DROP TABLE users''" "ep_sql q = ''DROP TABLE users''"
       "ep_limit p = ep_limit q" "ep_offset p = ep_offset q"
    and o: "executeQuery invoke p = Inl (ConfirmationRequired Drop)"
       "executeQuery invoke q = Inr r"
    by blast
  from f have "p = q" by (intro ExecuteQueryParams_eqI) simp_all
  with o show False by simp
qed

text \<open>
  C2, as amended. The \<^verbatim>\<open>executeQuery\<close> command accepts connectionId, sql, limit and
  offset and no confirmation flag: two calls that agree on these four have the same
  outcome. The confirmation rule is that of the Query Executor as specified: for a
  statement classified Destructive, \<^verbatim>\<open>execute\<close> with \<^verbatim>\<open>confirmed = false\<close> answers
  \<^verbatim>\<open>ConfirmationRequired(kind)\<close> and leaves the database as it is, without asking the
  engine, and with \<^verbatim>\<open>confirmed = true\<close> it runs the statement on the engine.
\<close>

theorem executeQuery_no_confirmation_flag:
  "(ep_connectionId p = ep_connectionId q \<and> ep_sql p = ep_sql q \<and>
    ep_limit p = ep_limit q \<and> ep_offset p = ep_offset q \<longrightarrow>
      executeQuery invoke p = executeQuery invoke q) \<and>
   (classify (q_sql req) = Destructive kind \<longrightarrow>
      execute classify engine req False db = (Inl (ConfirmationRequired kind), db) \<and>
      execute classify engine req True db =
        (case engine req db of
           (Inl e, db') \<Rightarrow> (Inl e, db')
         | (Inr rows, db') \<Rightarrow> (Inr (take (row_bound req) rows), db')))"
proof (intro conjI impI)
  assume "ep_connectionId p = ep_connectionId q \<and> ep_sql p = ep_sql q \<and>
    ep_limit p = ep_limit q \<and> ep_offset p = ep_offset q"
  then have "p = q" by (intro ExecuteQueryParams_eqI) simp_all
  then show "executeQuery invoke p = executeQuery invoke q" by simp
next
  assume "classify (q_sql req) = Destructive kind"
  then show "execute classify engine req False db = (Inl (ConfirmationRequired kind), db)"
    by (simp add: execute_def)
next
  assume "classify (q_sql req) = Destructive kind"
  then show "execute classify engine req True db =
        (case engine req db of
           (Inl e, db') \<Rightarrow> (Inl e, db')
         | (Inr rows, db') \<Rightarrow> (Inr (take (row_bound req) rows), db'))"
    by (simp add: execute_def)
qed

text \<open>
  Witness for C2: a request for \<^verbatim>\<open>DROP TABLE users\<close> on connection \<open>c1\<close>, built twice
  from the same four values, and the executor with a classifier that calls a statement
  starting with DROP destructive and an engine whose database is a number of tables:
  the unconfirmed call leaves three tables and the confirmed call leaves two.
\<close>

theorem executeQuery_no_confirmation_flag_witness:
  "ep_connectionId
     (\<lparr>ep_connectionId = ''c1'', ep_sql = ''SELECT 1'', ep_limit = Some (Num 100),
       ep_offset = Some (Num 0)\<rparr>\<lparr>ep_sql := ''DROP TABLE users''\<rparr>) = ''c1'' \<and>
   ep_sql
     (\<lparr>ep_connectionId = ''c1'', ep_sql = ''SELECT 1'', ep_limit = Some (Num 100),
       ep_offset = Some (Num 0)\<rparr>\<lparr>ep_sql := ''DROP TABLE users''\<rparr>) = ''DROP TABLE users'' \<and>
   executeQuery (\<lambda>c p. (c, ep_sql p))
     (\<lparr>ep_connectionId = ''c1'', ep_sql = ''SELECT 1'', ep_limit = Some (Num 100),
       ep_offset = Some (Num 0)\<rparr>\<lparr>ep_sql := ''DROP TABLE users''\<rparr>)
     = executeQuery (\<lambda>c p. (c, ep_sql p))
         \<lparr>ep_connectionId = ''c1'', ep_sql = ''DROP TABLE users'',
          ep_limit = Some (Num 100), ep_offset = Some (Num 0)\<rparr> \<and>
   (\<lambda>sql. if take 4 sql = ''DROP'' then Destructive Drop else Safe) ''DROP TABLE users''
     = Destructive Drop \<and>
   execute (\<lambda>sql. if take 4 sql = ''DROP'' then Destructive Drop else Safe)
      (\<lambda>r tables. (Inr [], tables - 1))
      \<lparr>q_profileId = ''c1'', q_sql = ''DROP TABLE users'', q_rowLimit = Some 100, q_offset = 0\<rparr>
      False (3::nat)
     = (Inl (ConfirmationRequired Drop), 3) \<and>
   execute (\<lambda>sql. if take 4 sql = ''DROP'' then Destructive Drop else Safe)
      (\<lambda>r tables. (Inr [], tables - 1))
      \<lparr>q_profileId = ''c1'', q_sql = ''DROP TABLE users'', q_rowLimit = Some 100, q_offset = 0\<rparr>
      True (3::nat)
     = (Inr ([] :: unit list), 2)"
  using executeQuery_no_confirmation_flag [of
      "\<lparr>ep_connectionId = ''c1'', ep_sql = ''SELECT 1'', ep_limit = Some (Num 100),
        ep_offset = Some (Num 0)\<rparr>\<lparr>ep_sql := ''DROP TABLE users''\<rparr>"
      "\<lparr>ep_connectionId = ''c1'', ep_sql = ''DROP TABLE users'',
        ep_limit = Some (Num 100), ep_offset = Some (Num 0)\<rparr>"
      "\<lambda>c p. (c, ep_sql p)"
      "\<lambda>sql. if take 4 sql = ''DROP'' then Destructive Drop else Safe"
      "\<lparr>q_profileId = ''c1'', q_sql = ''DROP TABLE users'', q_rowLimit = Some 100, q_offset = 0\<rparr>"
      Drop "\<lambda>r tables. (Inr ([] :: unit list), tables - 1)" "3::nat"]
  by (simp add: executeQuery_def execute_def Let_def row_bound_def)

text \<open>
  C3. The Query Executor as specified never returns more rows than the row limit of the
  request, which is the requested limit, or the default bound of 100 when the caller
  omits the limit. And every request the query editor's run path submits asks for a
  limit of 100 rows, at offset 0.
\<close>

theorem row_limit_enforced:
  "(execute classify engine req confirmed db = (Inr rows, db') \<longrightarrow>
      length rows \<le> row_bound req) \<and>
   (q_rowLimit req = None \<longrightarrow> row_bound req = 100) \<and>
   (q_rowLimit req = Some n \<longrightarrow> row_bound req = n) \<and>
   (\<forall>p \<in> set (fst (handleRunQuery invoke isRunning editorValue s)).
      ep_limit p = Some (Num 100) \<and> ep_offset p = Some (Num 0))"
  using execute_bound [of classify engine req confirmed db rows db']
    handleRunQuery_requests [of _ invoke isRunning editorValue s]
  by (simp add: row_bound_def default_row_limit_def)

text \<open>
  Witness for C3: an engine that yields 150 rows for a request without a limit; the
  executor returns 100 of them. The run path on the example store submits limit 100.
\<close>

theorem row_limit_enforced_witness:
  "execute (\<lambda>x. Safe) (\<lambda>r d. (Inr (replicate 150 ()), d))
      \<lparr>q_profileId = ''c1'', q_sql = ''SELECT * FROM users'', q_rowLimit = None, q_offset = 0\<rparr>
      False ()
     = (Inr (replicate 100 ()), ()) \<and>
   length (replicate 100 ()) \<le> (100::nat) \<and>
   fst (handleRunQuery (\<lambda>c p. RejectedWith OtherValue) False None ex_store)
     = [\<lparr>ep_connectionId = ''c1'', ep_sql = ''DROP TABLE users'',
         ep_limit = Some (Num 100), ep_offset = Some (Num 0)\<rparr>]"
  using row_limit_enforced [of "\<lambda>x. Safe" "\<lambda>r d. (Inr (replicate 150 ()), d)"
      "\<lparr>q_profileId = ''c1'', q_sql = ''SELECT * FROM users'', q_rowLimit = None, q_offset = 0\<rparr>"
      False "()" "replicate 100 ()" "()" 100 "\<lambda>c p. RejectedWith OtherValue" False None ex_store]
  by (simp add: execute_def row_bound_def default_row_limit_def handleRunQuery_def Let_def
      ex_store_def ex_conn1_def ex_conn2_def ex_tab1_def ex_tab2_def or_default_def
      trim_drop_table)

section \<open>Table pages (C4)\<close>

lemma GetTableDataParams_eqI:
  "gp_connectionId p = gp_connectionId q \<Longrightarrow> gp_tableName p = gp_tableName q \<Longrightarrow>
   gp_schema p = gp_schema q \<Longrightarrow> gp_limit p = gp_limit q \<Longrightarrow> gp_offset p = gp_offset q \<Longrightarrow>
   p = (q :: GetTableDataParams)"
  by (cases p, cases q) simp

lemma page_of_hasMore: "pg_hasMore (page_of pageSize batch) = False \<longleftrightarrow> length batch \<le> pageSize"
  by (simp add: page_of_def)

lemma keyset_hasMore:
  "pg_hasMore (page_of pageSize (keyset_fetch key cursor pageSize ordered)) \<longleftrightarrow>
     pageSize < length (filter (\<lambda>r. case cursor of None \<Rightarrow> True | Some k \<Rightarrow> k < key r) ordered)"
  by (auto simp: page_of_def keyset_fetch_def)

text \<open>
  Counterexample to C4 as stated. The parameters of \<^verbatim>\<open>getTableData\<close> are connectionId,
  tableName, schema, limit and offset: the only pagination position is the numeric
  offset. Two requests for table \<open>users\<close> of connection \<open>c1\<close> with page size 2 that give
  no offset, as requests positioned by cursors would, are one and the same request and
  cannot be answered with different pages.
\<close>

theorem getTableData_cursor_counterexample:
  "\<not> (\<exists>(invoke :: string \<Rightarrow> GetTableDataParams \<Rightarrow> TableDataResult promise) p q.
        gp_connectionId p = ''c1'' \<and> gp_connectionId q = ''c1'' \<and>
        gp_tableName p = ''users'' \<and> gp_tableName q = ''users'' \<and>
        gp_schema p = None \<and> gp_schema q = None \<and>
        gp_limit p = Some (Num 2) \<and> gp_limit q = Some (Num 2) \<and>
        gp_offset p = None \<and> gp_offset q = None \<and>
        getTableData invoke p \<noteq> getTableData invoke q)"
proof
  assume "\<exists>(invoke :: string \<Rightarrow> GetTableDataParams \<Rightarrow> TableDataResult promise) p q.
        gp_connectionId p = ''c1'' \<and> gp_connectionId q = ''c1'' \<and>
        gp_tableName p = ''users'' \<and> gp_tableName q = ''users'' \<and>
        gp_schema p = None \<and> gp_schema q = None \<and>
        gp_limit p = Some (Num 2) \<and> gp_limit q = Some (Num 2) \<and>
        gp_offset p = None \<and> gp_offset q = None \<and>
        getTableData invoke p \<noteq> getTableData invoke q"
  then obtain invoke :: "string \<Rightarrow> GetTableDataParams \<Rightarrow> TableDataResult promise"
    and p q where
    f: "gp_connectionId p = ''c1''" "gp_connectionId q = ''c1''"
       "gp_tableName p = ''users''" "gp_tableName q = ''users''"
       "gp_schema p = None" "gp_schema q = None"
       "gp_limit p = Some (Num 2)" "gp_limit q = Some (Num 2)"
       "gp_offset p = None" "gp_offset q = None"
    and o: "getTableData invoke p \<noteq> getTableData invoke q"
    by blast
  from f have "p = q" by (intro GetTableDataParams_eqI) simp_all
  with o show False by simp
qed

text \<open>
  C4, as amended. The \<^verbatim>\<open>getTableData\<close> command accepts the pagination position as an
  optional numeric offset only: two requests that agree on connectionId, tableName,
  schema, limit and offset have the same outcome. A fulfilled result is a record of
  columns, rows, totalCount and hasMore. For every page of the pager as specified,
  \<^verbatim>\<open>hasMore\<close> is false exactly when the fetched batch has at most \<open>pageSize\<close> rows; the
  page returns the first \<open>pageSize\<close> rows of the batch, and with the keyset fetch
  \<^verbatim>\<open>hasMore\<close> is true exactly when more than \<open>pageSize\<close> rows lie beyond the cursor.
\<close>

theorem getTableData_offset_pagination:
  "(gp_connectionId p = gp_connectionId q \<and> gp_tableName p = gp_tableName q \<and>
    gp_schema p = gp_schema q \<and> gp_limit p = gp_limit q \<and> gp_offset p = gp_offset q \<longrightarrow>
      getTableData invoke p = getTableData invoke q) \<and>
   (getTableData invoke' p = Fulfilled res \<longrightarrow>
      res = \<lparr>td_columns = td_columns res, td_rows = td_rows res,
             td_totalCount = td_totalCount res, td_hasMore = td_hasMore res\<rparr>) \<and>
   (pg_hasMore (page_of pageSize batch) = False \<longleftrightarrow> length batch \<le> pageSize) \<and>
   length (pg_rows (page_of pageSize batch)) \<le> pageSize \<and>
   pg_rows (page_of pageSize batch) = take pageSize batch \<and>
   (pg_hasMore (page_of pageSize (keyset_fetch key cursor pageSize ordered)) \<longleftrightarrow>
      pageSize < length (filter (\<lambda>r. case cursor of None \<Rightarrow> True | Some k \<Rightarrow> k < key r)
                           ordered))"
proof (intro conjI impI)
  assume "gp_connectionId p = gp_connectionId q \<and> gp_tableName p = gp_tableName q \<and>
    gp_schema p = gp_schema q \<and> gp_limit p = gp_limit q \<and> gp_offset p = gp_offset q"
  then have "p = q" by (intro GetTableDataParams_eqI) simp_all
  then show "getTableData invoke p = getTableData invoke q" by simp
next
  show "res = \<lparr>td_columns = td_columns res, td_rows = td_rows res,
             td_totalCount = td_totalCount res, td_hasMore = td_hasMore res\<rparr>"
    by simp
next
  show "pg_hasMore (page_of pageSize batch) = False \<longleftrightarrow> length batch \<le> pageSize"
    by (rule page_of_hasMore)
next
  show "length (pg_rows (page_of pageSize batch)) \<le> pageSize"
    by (simp add: page_of_def)
next
  show "pg_rows (page_of pageSize batch) = take pageSize batch"
    by (simp add: page_of_def)
next
  show "pg_hasMore (page_of pageSize (keyset_fetch key cursor pageSize ordered)) \<longleftrightarrow>
      pageSize < length (filter (\<lambda>r. case cursor of None \<Rightarrow> True | Some k \<Rightarrow> k < key r)
                           ordered)"
    by (rule keyset_hasMore)
qed

text \<open>
  Witness for C4: the specification's scenario, a table with keys 1 to 5 read in pages
  of 2 (pages [1,2] and [3,4] with more to come, then [5] and no more), and a request
  at offset 4 answered by a command that resolves.
\<close>

theorem getTableData_offset_pagination_witness:
  "page_of 2 (keyset_fetch (\<lambda>r. r) None 2 [1, 2, 3, 4, 5]) = \<lparr>pg_rows = [1, 2], pg_hasMore = True\<rparr> \<and>
   page_of 2 (keyset_fetch (\<lambda>r. r) (Some 2) 2 [1, 2, 3, 4, 5])
     = \<lparr>pg_rows = [3, 4], pg_hasMore = True\<rparr> \<and>
   page_of 2 (keyset_fetch (\<lambda>r. r) (Some 4) 2 [1, 2, 3, 4, 5])
     = \<lparr>pg_rows = [5], pg_hasMore = False\<rparr> \<and>
   getTableData (\<lambda>c p. Fulfilled \<lparr>td_columns = [], td_rows = [], td_totalCount = Num 5,
                                   td_hasMore = False\<rparr>)
      \<lparr>gp_connectionId = ''c1'', gp_tableName = ''users'', gp_schema = None,
       gp_limit = Some (Num 2), gp_offset = Some (Num 4)\<rparr>
     = Fulfilled \<lparr>td_columns = [], td_rows = [], td_totalCount = Num 5, td_hasMore = False\<rparr>"
  using getTableData_offset_pagination [of
      "\<lparr>gp_connectionId = ''c1'', gp_tableName = ''users'', gp_schema = None,
        gp_limit = Some (Num 2), gp_offset = Some (Num 4)\<rparr>"
      "\<lparr>gp_connectionId = ''c1'', gp_tableName = ''users'', gp_schema = None,
        gp_limit = Some (Num 2), gp_offset = Some (Num 4)\<rparr>"
      "\<lambda>c p. ()"
      "\<lambda>c p. Fulfilled \<lparr>td_columns = [], td_rows = [], td_totalCount = Num 5,
                         td_hasMore = False\<rparr>"
      "\<lparr>td_columns = [], td_rows = [], td_totalCount = Num 5, td_hasMore = False\<rparr>"
      2 "keyset_fetch (\<lambda>r. r) (Some 4) 2 [1, 2, 3, 4, 5]" "\<lambda>r. r" "Some 4" "[1, 2, 3, 4, 5]"]
  by (simp add: page_of_def keyset_fetch_def getTableData_def)

end
